theory Spec2Isabelle
  imports Main
begin

section \<open>Data model of core/services/offchainreporting/oracle.go\<close>

text \<open>
  The Go file wires a job spec to the off-chain reporting library. Everything it calls
  that lives outside the file (the node configuration getters, the key store, the
  pipeline runner, the constructors of libocr, go-ethereum and net/url) is a parameter
  of the model: a record of functions whose results the code inspects.

  Objects returned by a constructor are represented by the constructor applied to its
  arguments, so the wiring of a service stays visible in the value.
\<close>

subsection \<open>Errors\<close>

text \<open>
  A Go \<open>error\<close>. \<open>New\<close>, \<open>Errorf\<close>, \<open>Wrap\<close> and \<open>Wrapf\<close> are the calls of
  github.com/pkg/errors that the file makes, with the format string and its arguments
  kept apart. \<open>Foreign\<close> is an error value created by a collaborator and handed back
  unchanged. \<open>CoercionError\<close> is the failure of the conversion helper, which is not
  among the sources (see \<open>ToDecimal\<close> below).
\<close>

datatype arg = AStr string | AInt int | ANil

datatype error =
    New string
  | Errorf string "arg list"
  | Wrap error string
  | Wrapf error string "arg list"
  | Foreign string
  | CoercionError

subsection \<open>Plain values\<close>

type_synonym address = string
type_synonym peer_id = string
type_synonym duration = int

datatype url = URL string

datatype eth_client = EthClient nat
datatype log_broadcaster = LogBroadcaster nat
datatype gorm_db = GormDB nat
datatype job_orm = JobORM nat
datatype peer = Peer nat
datatype ocr_key = OCRKey string
datatype contract_abi = ContractABI string
datatype ctx = Ctx nat

subsection \<open>The job spec\<close>

text \<open>
  The fields of \<open>OracleSpec\<close> that the file reads. The struct's declaration is not
  among the sources; the field types are the ones the uses fix (durations and the
  confirmation count are passed by value, the transmitter address is a pointer).
\<close>

record OracleSpec =
  ID :: int
  jobID :: int
  ContractAddress :: address
  P2PPeerID :: "peer_id option"
  P2PBootstrapPeers :: "string list"
  IsBootstrapPeer :: bool
  EncryptedOCRKeyBundleID :: "string option"
  MonitoringEndpoint :: string
  TransmitterAddress :: "address option"
  ObservationTimeout :: duration
  BlockchainTimeout :: duration
  ContractConfigTrackerSubscribeInterval :: duration
  ContractConfigTrackerPollInterval :: duration
  ContractConfigConfirmations :: nat
  SchemaVersion :: nat
  MaxTaskDuration :: duration

text \<open>The accessor \<open>JobID()\<close> of the spec (declared outside the file) reads \<open>jobID\<close>.\<close>

definition JobID :: "OracleSpec \<Rightarrow> int" where
  "JobID s = jobID s"

text \<open>
  A value of the interface \<open>job.Spec\<close>, by dynamic type: the nil interface, a pointer
  to an \<open>OracleSpec\<close>, an \<open>OracleSpec\<close> value, or a value of another type (with its
  type name). Pointers are taken to be non-nil, as \<open>FromDBRow\<close> builds them.
\<close>

datatype Spec =
    NilSpec
  | PtrOracleSpec OracleSpec
  | ValOracleSpec OracleSpec
  | OtherSpec string

text \<open>What the verb \<open>%T\<close> prints for a spec.\<close>

fun type_name :: "Spec \<Rightarrow> string" where
  "type_name NilSpec = ''<nil>''"
| "type_name (PtrOracleSpec _) = ''*offchainreporting.OracleSpec''"
| "type_name (ValOracleSpec _) = ''offchainreporting.OracleSpec''"
| "type_name (OtherSpec n) = n"

definition JobType :: string where
  "JobType = ''offchainreporting''"

record JobSpecV2 =
  OffchainreportingOracleSpec :: "OracleSpec option"
  Type :: string
  JobSpecV2_ID :: int
  JobSpecV2_SchemaVersion :: nat
  JobSpecV2_MaxTaskDuration :: duration

subsection \<open>The pipeline runner and the data source\<close>

datatype pvalue = VString string | VInt int | VNil

record Result =
  Value :: pvalue
  Error :: "string option"

record Runner =
  CreateRun :: "ctx \<Rightarrow> int \<Rightarrow> string option \<Rightarrow> string + int"
  AwaitRun :: "ctx \<Rightarrow> int \<Rightarrow> string option"
  ResultsForRun :: "ctx \<Rightarrow> int \<Rightarrow> string + Result list"

record dataSource =
  pipelineRunner :: Runner
  ds_jobID :: int

subsection \<open>The node configuration, the key store and the peer wrapper\<close>

text \<open>
  \<open>orm.Config\<close>: each getter the file calls, as a function of the argument the file
  passes. The two timeouts without an argument are called without one in the source.
\<close>

record Config =
  cfg_P2PPeerID :: "peer_id option \<Rightarrow> string + peer_id"
  cfg_P2PBootstrapPeers :: "string list \<Rightarrow> string + string list"
  OCRTraceLogging :: bool
  OCRMonitoringEndpoint :: "string \<Rightarrow> string"
  ExplorerURL :: "url option"
  ExplorerAccessKey :: string
  ExplorerSecret :: string
  OCRBlockchainTimeout :: "duration \<Rightarrow> duration"
  OCRContractConfirmations :: "nat \<Rightarrow> nat"
  OCRContractPollInterval :: "duration \<Rightarrow> duration"
  OCRContractSubscribeInterval :: "duration \<Rightarrow> duration"
  OCRContractTransmitterTransmitTimeout :: duration
  OCRDatabaseTimeout :: duration
  OCRObservationTimeout :: "duration \<Rightarrow> duration"
  OCRKeyBundleID :: "string option \<Rightarrow> string + string"
  OCRTransmitterAddress :: "address option \<Rightarrow> string + address"
  EthGasLimitDefault :: nat

record KeyStore =
  DecryptedOCRKey :: "string \<Rightarrow> ocr_key option"

record SingletonPeerWrapper =
  IsStarted :: bool
  PeerID :: peer_id
  pw_Peer :: peer

record jobSpawnerDelegate =
  db :: gorm_db
  jobORM :: job_orm
  config :: Config
  keyStore :: KeyStore
  d_pipelineRunner :: Runner
  ethClient :: eth_client
  logBroadcaster :: log_broadcaster
  peerWrapper :: "SingletonPeerWrapper option"

subsection \<open>The objects the file constructs\<close>

datatype filterer = OffchainAggregatorFilterer address eth_client
datatype caller = OffchainAggregatorCaller address eth_client

datatype tracker =
  OCRContractConfigTracker address filterer caller eth_client log_broadcaster int

datatype ocr_logger = Logger address int bool job_orm
datatype ocr_db = DB gorm_db int
datatype explorer_client = ExplorerClient url string string
datatype agent = Agent explorer_client
datatype transmitter = Transmitter gorm_db address nat
datatype contract_transmitter = OCRContractTransmitter address caller contract_abi transmitter

record LocalConfig =
  lc_BlockchainTimeout :: duration
  lc_ContractConfigConfirmations :: nat
  lc_ContractConfigTrackerPollInterval :: duration
  lc_ContractConfigTrackerSubscribeInterval :: duration
  lc_ContractTransmitterTransmitTimeout :: duration
  lc_DatabaseTimeout :: duration
  lc_DataSourceTimeout :: duration

record BootstrapNodeArgs =
  bn_BootstrapperFactory :: peer
  bn_Bootstrappers :: "string list"
  bn_ContractConfigTracker :: tracker
  bn_Database :: ocr_db
  bn_LocalConfig :: LocalConfig
  bn_Logger :: ocr_logger
  bn_MonitoringEndpoint :: "agent option"

record OracleArgs =
  oa_Database :: ocr_db
  oa_Datasource :: dataSource
  oa_LocalConfig :: LocalConfig
  oa_ContractTransmitter :: contract_transmitter
  oa_ContractConfigTracker :: tracker
  oa_PrivateKeys :: ocr_key
  oa_BinaryNetworkEndpointFactory :: peer
  oa_MonitoringEndpoint :: "agent option"
  oa_Logger :: ocr_logger
  oa_Bootstrappers :: "string list"

text \<open>A \<open>job.Service\<close>: the three kinds of value the file appends to \<open>services\<close>.\<close>

datatype Service =
    ClientService explorer_client
  | BootstrapNode BootstrapNodeArgs
  | Oracle OracleArgs

subsection \<open>Constructors that can fail\<close>

text \<open>
  The calls into libocr, go-ethereum and net/url, and the tracker's constructor (of this
  package, but outside the file), that return an error: each decides, from its
  arguments, whether it fails and with which error.
\<close>

record Lib =
  NewOffchainAggregatorFilterer :: "address \<Rightarrow> eth_client \<Rightarrow> string option"
  NewOffchainAggregatorCaller :: "address \<Rightarrow> eth_client \<Rightarrow> string option"
  NewOCRContractConfigTracker ::
    "address \<Rightarrow> filterer \<Rightarrow> caller \<Rightarrow> eth_client \<Rightarrow> log_broadcaster \<Rightarrow> int \<Rightarrow> string option"
  url_Parse :: "string \<Rightarrow> string + url"
  SanityCheckLocalConfig :: "LocalConfig \<Rightarrow> string option"
  NewBootstrapNode :: "BootstrapNodeArgs \<Rightarrow> string option"
  abi_JSON :: "string + contract_abi"
  NewOracle :: "OracleArgs \<Rightarrow> string option"

section \<open>The job spawner delegate\<close>

datatype 'a outcome = Panic string | Returns 'a

text \<open>\<open>ToDBRow\<close> asserts the value type \<open>OracleSpec\<close> and panics on anything else.\<close>

definition ToDBRow :: "jobSpawnerDelegate \<Rightarrow> Spec \<Rightarrow> JobSpecV2 outcome" where
  "ToDBRow d spec =
     (case spec of
        ValOracleSpec concreteSpec \<Rightarrow>
          Returns \<lparr>OffchainreportingOracleSpec = Some concreteSpec,
                   Type = JobType,
                   JobSpecV2_ID = 0,
                   JobSpecV2_SchemaVersion = SchemaVersion concreteSpec,
                   JobSpecV2_MaxTaskDuration = MaxTaskDuration concreteSpec\<rparr>
      | _ \<Rightarrow> Panic (''expected an offchainreporting.OracleSpec, got '' @ type_name spec))"

definition FromDBRow :: "jobSpawnerDelegate \<Rightarrow> JobSpecV2 \<Rightarrow> Spec" where
  "FromDBRow d spec =
     (case OffchainreportingOracleSpec spec of
        None \<Rightarrow> NilSpec
      | Some s \<Rightarrow> PtrOracleSpec (s\<lparr>jobID := JobSpecV2_ID spec\<rparr>))"

subsection \<open>The local variables of \<open>ServicesForSpec\<close>\<close>

text \<open>
  Each local variable of the Go function that holds a constructed value is a definition
  over the variables in scope at its declaration, in the order of the source.
\<close>

definition contractFilterer :: "jobSpawnerDelegate \<Rightarrow> OracleSpec \<Rightarrow> filterer" where
  "contractFilterer d concreteSpec =
     OffchainAggregatorFilterer (ContractAddress concreteSpec) (ethClient d)"

definition contractCaller :: "jobSpawnerDelegate \<Rightarrow> OracleSpec \<Rightarrow> caller" where
  "contractCaller d concreteSpec =
     OffchainAggregatorCaller (ContractAddress concreteSpec) (ethClient d)"

definition ocrContract :: "jobSpawnerDelegate \<Rightarrow> OracleSpec \<Rightarrow> tracker" where
  "ocrContract d concreteSpec =
     OCRContractConfigTracker (ContractAddress concreteSpec) (contractFilterer d concreteSpec)
       (contractCaller d concreteSpec) (ethClient d) (logBroadcaster d) (JobID concreteSpec)"

definition ocrLogger :: "jobSpawnerDelegate \<Rightarrow> OracleSpec \<Rightarrow> ocr_logger" where
  "ocrLogger d concreteSpec =
     Logger (ContractAddress concreteSpec) (jobID concreteSpec) (OCRTraceLogging (config d))
       (jobORM d)"

text \<open>
  Lines 151 to 159: the monitoring URL, or the error of the one \<open>return\<close> in that block.
\<close>

definition endpointURL :: "Lib \<Rightarrow> jobSpawnerDelegate \<Rightarrow> OracleSpec \<Rightarrow> error + url option" where
  "endpointURL lib d concreteSpec =
     (let me = OCRMonitoringEndpoint (config d) (MonitoringEndpoint concreteSpec) in
      if me \<noteq> [] then
        (case url_Parse lib me of
           Inl err \<Rightarrow> Inl (Wrapf (Foreign err) ''invalid monitoring url: %s'' [AStr me])
         | Inr u \<Rightarrow> Inr (Some u))
      else Inr (ExplorerURL (config d)))"

text \<open>
  Lines 161 to 168: with a URL, the explorer client becomes the monitoring endpoint and is
  appended to \<open>services\<close> (which is nil until then); without one, the endpoint is nil
  and \<open>services\<close> stays nil.
\<close>

definition client :: "jobSpawnerDelegate \<Rightarrow> url \<Rightarrow> explorer_client" where
  "client d u = ExplorerClient u (ExplorerAccessKey (config d)) (ExplorerSecret (config d))"

definition monitoringEndpoint :: "jobSpawnerDelegate \<Rightarrow> url option \<Rightarrow> agent option" where
  "monitoringEndpoint d endpoint =
     (case endpoint of Some u \<Rightarrow> Some (Agent (client d u)) | None \<Rightarrow> None)"

definition services :: "jobSpawnerDelegate \<Rightarrow> url option \<Rightarrow> Service list" where
  "services d endpoint =
     (case endpoint of Some u \<Rightarrow> [] @ [ClientService (client d u)] | None \<Rightarrow> [])"

definition lc :: "jobSpawnerDelegate \<Rightarrow> OracleSpec \<Rightarrow> LocalConfig" where
  "lc d concreteSpec =
     \<lparr>lc_BlockchainTimeout =
        OCRBlockchainTimeout (config d) (BlockchainTimeout concreteSpec),
      lc_ContractConfigConfirmations =
        OCRContractConfirmations (config d) (ContractConfigConfirmations concreteSpec),
      lc_ContractConfigTrackerPollInterval =
        OCRContractPollInterval (config d) (ContractConfigTrackerPollInterval concreteSpec),
      lc_ContractConfigTrackerSubscribeInterval =
        OCRContractSubscribeInterval (config d)
          (ContractConfigTrackerSubscribeInterval concreteSpec),
      lc_ContractTransmitterTransmitTimeout = OCRContractTransmitterTransmitTimeout (config d),
      lc_DatabaseTimeout = OCRDatabaseTimeout (config d),
      lc_DataSourceTimeout =
        OCRObservationTimeout (config d) (ObservationTimeout concreteSpec)\<rparr>"

definition bootstrapNodeArgs ::
  "jobSpawnerDelegate \<Rightarrow> OracleSpec \<Rightarrow> SingletonPeerWrapper \<Rightarrow> string list \<Rightarrow> url option
     \<Rightarrow> BootstrapNodeArgs" where
  "bootstrapNodeArgs d concreteSpec pw bootstrapPeers endpoint =
     \<lparr>bn_BootstrapperFactory = pw_Peer pw,
      bn_Bootstrappers = bootstrapPeers,
      bn_ContractConfigTracker = ocrContract d concreteSpec,
      bn_Database = DB (db d) (ID concreteSpec),
      bn_LocalConfig = lc d concreteSpec,
      bn_Logger = ocrLogger d concreteSpec,
      bn_MonitoringEndpoint = monitoringEndpoint d endpoint\<rparr>"

definition contractTransmitter ::
  "jobSpawnerDelegate \<Rightarrow> OracleSpec \<Rightarrow> contract_abi \<Rightarrow> address \<Rightarrow> contract_transmitter" where
  "contractTransmitter d concreteSpec contractABI ta =
     OCRContractTransmitter (ContractAddress concreteSpec) (contractCaller d concreteSpec)
       contractABI (Transmitter (db d) ta (EthGasLimitDefault (config d)))"

definition oracleArgs ::
  "jobSpawnerDelegate \<Rightarrow> OracleSpec \<Rightarrow> SingletonPeerWrapper \<Rightarrow> string list \<Rightarrow> url option
     \<Rightarrow> ocr_key \<Rightarrow> contract_abi \<Rightarrow> address \<Rightarrow> OracleArgs" where
  "oracleArgs d concreteSpec pw bootstrapPeers endpoint ocrkey contractABI ta =
     \<lparr>oa_Database = DB (db d) (ID concreteSpec),
      oa_Datasource = \<lparr>pipelineRunner = d_pipelineRunner d, ds_jobID = JobID concreteSpec\<rparr>,
      oa_LocalConfig = lc d concreteSpec,
      oa_ContractTransmitter = contractTransmitter d concreteSpec contractABI ta,
      oa_ContractConfigTracker = ocrContract d concreteSpec,
      oa_PrivateKeys = ocrkey,
      oa_BinaryNetworkEndpointFactory = pw_Peer pw,
      oa_MonitoringEndpoint = monitoringEndpoint d endpoint,
      oa_Logger = ocrLogger d concreteSpec,
      oa_Bootstrappers = bootstrapPeers\<rparr>"

subsection \<open>\<open>ServicesForSpec\<close>\<close>

text \<open>
  \<open>ServicesForSpec\<close> returns the pair \<open>(services, err)\<close>. Every \<open>return nil, err\<close> of
  the source is the empty list with \<open>Some\<close> error, in the order of the source.
\<close>

definition ServicesForSpec ::
  "Lib \<Rightarrow> jobSpawnerDelegate \<Rightarrow> Spec \<Rightarrow> Service list \<times> error option" where
  "ServicesForSpec lib d spec =
   (case spec of
      PtrOracleSpec concreteSpec \<Rightarrow>
       (case NewOffchainAggregatorFilterer lib (ContractAddress concreteSpec) (ethClient d) of
          Some err \<Rightarrow>
            ([], Some (Wrap (Foreign err) ''could not instantiate NewOffchainAggregatorFilterer''))
        | None \<Rightarrow>
       (case NewOffchainAggregatorCaller lib (ContractAddress concreteSpec) (ethClient d) of
          Some err \<Rightarrow>
            ([], Some (Wrap (Foreign err) ''could not instantiate NewOffchainAggregatorCaller''))
        | None \<Rightarrow>
       (case NewOCRContractConfigTracker lib (ContractAddress concreteSpec)
               (contractFilterer d concreteSpec) (contractCaller d concreteSpec)
               (ethClient d) (logBroadcaster d) (JobID concreteSpec) of
          Some err \<Rightarrow> ([], Some (Wrap (Foreign err) ''error calling NewOCRContract''))
        | None \<Rightarrow>
       (case cfg_P2PPeerID (config d) (P2PPeerID concreteSpec) of
          Inl err \<Rightarrow> ([], Some (Foreign err))
        | Inr peerID \<Rightarrow>
       (case peerWrapper d of
          None \<Rightarrow> ([], Some (New ''cannot setup OCR job service, libp2p peer was missing''))
        | Some pw \<Rightarrow>
       if \<not> IsStarted pw then
         ([], Some (New ''peerWrapper is not started. OCR jobs require a started and running peer. Did you forget to specify P2P_LISTEN_PORT?''))
       else if PeerID pw \<noteq> peerID then
         ([], Some (Errorf ''given peer with ID '%s' does not match OCR configured peer with ID: %s''
                      [AStr (PeerID pw), AStr peerID]))
       else
       (case cfg_P2PBootstrapPeers (config d) (P2PBootstrapPeers concreteSpec) of
          Inl err \<Rightarrow> ([], Some (Foreign err))
        | Inr bootstrapPeers \<Rightarrow>
       (case endpointURL lib d concreteSpec of
          Inl err \<Rightarrow> ([], Some err)
        | Inr endpoint \<Rightarrow>
       (case SanityCheckLocalConfig lib (lc d concreteSpec) of
          Some err \<Rightarrow> ([], Some (Foreign err))
        | None \<Rightarrow>
       if IsBootstrapPeer concreteSpec then
         (case NewBootstrapNode lib (bootstrapNodeArgs d concreteSpec pw bootstrapPeers endpoint) of
            Some err \<Rightarrow> ([], Some (Wrap (Foreign err) ''error calling NewBootstrapNode''))
          | None \<Rightarrow>
              (services d endpoint
                 @ [BootstrapNode (bootstrapNodeArgs d concreteSpec pw bootstrapPeers endpoint)],
               None))
       else
         if length bootstrapPeers < 1 then
           ([], Some (New ''need at least one bootstrap peer''))
         else
         (case OCRKeyBundleID (config d) (EncryptedOCRKeyBundleID concreteSpec) of
            Inl err \<Rightarrow> ([], Some (Foreign err))
          | Inr kb \<Rightarrow>
         (case DecryptedOCRKey (keyStore d) kb of
            None \<Rightarrow>
              ([], Some (Errorf ''OCR key '%v' does not exist''
                           [case EncryptedOCRKeyBundleID concreteSpec of
                              None \<Rightarrow> ANil | Some k \<Rightarrow> AStr k]))
          | Some ocrkey \<Rightarrow>
         (case abi_JSON lib of
            Inl err \<Rightarrow> ([], Some (Wrap (Foreign err) ''could not get contract ABI JSON''))
          | Inr contractABI \<Rightarrow>
         (case OCRTransmitterAddress (config d) (TransmitterAddress concreteSpec) of
            Inl err \<Rightarrow> ([], Some (Foreign err))
          | Inr ta \<Rightarrow>
         (case NewOracle lib
                 (oracleArgs d concreteSpec pw bootstrapPeers endpoint ocrkey contractABI ta) of
            Some err \<Rightarrow> ([], Some (Wrap (Foreign err) ''error calling NewOracle''))
          | None \<Rightarrow>
              (services d endpoint
                 @ [Oracle (oracleArgs d concreteSpec pw bootstrapPeers endpoint ocrkey
                              contractABI ta)],
               None))))))))))))))
    | _ \<Rightarrow>
       ([], Some (Errorf ''offchainreporting.jobSpawnerDelegate expects an *offchainreporting.OracleSpec, got %T''
                    [AStr (type_name spec)])))"

section \<open>The data source\<close>

subsection \<open>Conversion of a pipeline value\<close>

text \<open>
  A decimal number: a coefficient and the number of its fraction digits, so that
  \<open>Decimal c e\<close> stands for \<open>c / 10 ^ e\<close>. \<open>BigInt\<close> is its integer part.
\<close>

datatype decimal = Decimal int nat

definition BigInt :: "decimal \<Rightarrow> int" where
  "BigInt x = (case x of Decimal c e \<Rightarrow> if c < 0 then - ((- c) div 10 ^ e) else c div 10 ^ e)"

definition digit :: "char \<Rightarrow> nat option" where
  "digit c = (let n = (of_char c :: nat) in if 48 \<le> n \<and> n \<le> 57 then Some (n - 48) else None)"

fun digits :: "string \<Rightarrow> nat \<Rightarrow> nat option" where
  "digits [] acc = Some acc"
| "digits (c # cs) acc = (case digit c of None \<Rightarrow> None | Some k \<Rightarrow> digits cs (10 * acc + k))"

definition unsigned_decimal :: "string \<Rightarrow> (nat \<times> nat) option" where
  "unsigned_decimal s =
     (let ip = takeWhile (\<lambda>c. c \<noteq> CHR ''.'') s;
          rest = dropWhile (\<lambda>c. c \<noteq> CHR ''.'') s
      in case rest of
           [] \<Rightarrow> if ip = [] then None else map_option (\<lambda>n. (n, 0)) (digits ip 0)
         | _ # fp \<Rightarrow>
             if ip = [] \<or> fp = [] then None
             else map_option (\<lambda>n. (n, length fp)) (digits (ip @ fp) 0))"

definition decimal_of_string :: "string \<Rightarrow> decimal option" where
  "decimal_of_string s =
     (case s of
        [] \<Rightarrow> None
      | c # cs \<Rightarrow>
          if c = CHR ''-'' then map_option (\<lambda>(n, e). Decimal (- int n) e) (unsigned_decimal cs)
          else if c = CHR ''+'' then map_option (\<lambda>(n, e). Decimal (int n) e) (unsigned_decimal cs)
          else map_option (\<lambda>(n, e). Decimal (int n) e) (unsigned_decimal s))"

text \<open>
  Modelled from the spec: \<open>utils.ToDecimal\<close> is a helper of this repository that is not
  among the sources. The spec says: "convert the result's value to a fixed-precision
  decimal [...]; a value that cannot be coerced to a number fails with CoercionError."
  A string is coerced when it is a decimal numeral (optional sign, digits, optional
  fraction), an integer is coerced as it is, and nil is not a number.
\<close>

definition ToDecimal :: "pvalue \<Rightarrow> error + decimal" where
  "ToDecimal v =
     (case v of
        VString s \<Rightarrow> (case decimal_of_string s of None \<Rightarrow> Inl CoercionError | Some x \<Rightarrow> Inr x)
      | VInt i \<Rightarrow> Inr (Decimal i 0)
      | VNil \<Rightarrow> Inl CoercionError)"

subsection \<open>Observe\<close>

text \<open>
  \<open>Observe\<close> returns the pair \<open>(observation, err)\<close>: a nil observation is \<open>None\<close>.
  The index \<open>results[0]\<close> is read only after the length check has passed.
\<close>

definition Observe :: "dataSource \<Rightarrow> ctx \<Rightarrow> int option \<times> error option" where
  "Observe ds c =
     (case CreateRun (pipelineRunner ds) c (ds_jobID ds) None of
        Inl err \<Rightarrow> (None, Some (Foreign err))
      | Inr runID \<Rightarrow>
     (case AwaitRun (pipelineRunner ds) c runID of
        Some err \<Rightarrow> (None, Some (Foreign err))
      | None \<Rightarrow>
     (case ResultsForRun (pipelineRunner ds) c runID of
        Inl err \<Rightarrow> (None, Some (Wrapf (Foreign err) ''pipeline error'' []))
      | Inr results \<Rightarrow>
     if length results \<noteq> 1 then
       (None, Some (Errorf ''offchain reporting pipeline should have a single output (job spec ID: %v, pipeline run ID: %v)''
                      [AInt (ds_jobID ds), AInt runID]))
     else
     (case Error (results ! 0) of
        Some err \<Rightarrow> (None, Some (Foreign err))
      | None \<Rightarrow>
     (case ToDecimal (Value (results ! 0)) of
        Inl err \<Rightarrow> (None, Some err)
      | Inr asDecimal \<Rightarrow> (Some (BigInt asDecimal), None))))))"

section \<open>Notions used in the statements\<close>

subsection \<open>What a service is built on\<close>









subsection \<open>The steps of a successful construction\<close>

text \<open>Lines 104 to 125: the three contract adapters are built without error.\<close>

definition adapters_succeed :: "Lib \<Rightarrow> jobSpawnerDelegate \<Rightarrow> OracleSpec \<Rightarrow> bool" where
  "adapters_succeed lib d cs \<longleftrightarrow>
     NewOffchainAggregatorFilterer lib (ContractAddress cs) (ethClient d) = None
   \<and> NewOffchainAggregatorCaller lib (ContractAddress cs) (ethClient d) = None
   \<and> NewOCRContractConfigTracker lib (ContractAddress cs) (contractFilterer d cs)
         (contractCaller d cs) (ethClient d) (logBroadcaster d) (JobID cs) = None"

text \<open>
  Lines 104 to 181, the steps both branches share: the adapters, the peer checks against
  the wrapper \<open>pw\<close>, the bootstrap peers \<open>bp\<close>, the monitoring URL \<open>ep\<close> and the
  sanity check all pass.
\<close>

definition common_steps_succeed ::
  "Lib \<Rightarrow> jobSpawnerDelegate \<Rightarrow> OracleSpec \<Rightarrow> SingletonPeerWrapper \<Rightarrow> string list
     \<Rightarrow> url option \<Rightarrow> bool" where
  "common_steps_succeed lib d cs pw bp ep \<longleftrightarrow>
     adapters_succeed lib d cs
   \<and> cfg_P2PPeerID (config d) (P2PPeerID cs) = Inr (PeerID pw)
   \<and> peerWrapper d = Some pw
   \<and> IsStarted pw
   \<and> cfg_P2PBootstrapPeers (config d) (P2PBootstrapPeers cs) = Inr bp
   \<and> endpointURL lib d cs = Inr ep
   \<and> SanityCheckLocalConfig lib (lc d cs) = None"

definition bootstrap_succeeds ::
  "Lib \<Rightarrow> jobSpawnerDelegate \<Rightarrow> OracleSpec \<Rightarrow> SingletonPeerWrapper \<Rightarrow> string list
     \<Rightarrow> url option \<Rightarrow> bool" where
  "bootstrap_succeeds lib d cs pw bp ep \<longleftrightarrow>
     common_steps_succeed lib d cs pw bp ep
   \<and> IsBootstrapPeer cs
   \<and> NewBootstrapNode lib (bootstrapNodeArgs d cs pw bp ep) = None"

definition oracle_succeeds ::
  "Lib \<Rightarrow> jobSpawnerDelegate \<Rightarrow> OracleSpec \<Rightarrow> SingletonPeerWrapper \<Rightarrow> string list
     \<Rightarrow> url option \<Rightarrow> string \<Rightarrow> ocr_key \<Rightarrow> contract_abi \<Rightarrow> address \<Rightarrow> bool" where
  "oracle_succeeds lib d cs pw bp ep kb ocrkey contractABI ta \<longleftrightarrow>
     common_steps_succeed lib d cs pw bp ep
   \<and> \<not> IsBootstrapPeer cs
   \<and> \<not> length bp < 1
   \<and> OCRKeyBundleID (config d) (EncryptedOCRKeyBundleID cs) = Inr kb
   \<and> DecryptedOCRKey (keyStore d) kb = Some ocrkey
   \<and> abi_JSON lib = Inr contractABI
   \<and> OCRTransmitterAddress (config d) (TransmitterAddress cs) = Inr ta
   \<and> NewOracle lib (oracleArgs d cs pw bp ep ocrkey contractABI ta) = None"

subsection \<open>The node configuration's getters with an override\<close>

text \<open>
  Modelled from the spec: the getters of \<open>orm.Config\<close> are code of this repository that
  is not among the sources. The spec says: "if the job supplies an override, it is used
  verbatim; otherwise the node-wide default applies." The file passes the job's value
  by value, so a job supplies an override when its value is not the zero value.
\<close>

definition with_override :: "'a::zero \<Rightarrow> 'a \<Rightarrow> 'a" where
  "with_override dflt override = (if override \<noteq> 0 then override else dflt)"

record NodeDefaults =
  nd_BlockchainTimeout :: duration
  nd_ContractConfirmations :: nat
  nd_ContractPollInterval :: duration
  nd_ContractSubscribeInterval :: duration
  nd_ContractTransmitterTransmitTimeout :: duration
  nd_DatabaseTimeout :: duration
  nd_ObservationTimeout :: duration

text \<open>
  Modelled from the spec: a node configuration whose seven timing getters resolve the
  node-wide defaults \<open>nd\<close> as the spec says; the two getters that the file calls
  without an argument return the default. The other getters are those of \<open>c\<close>.
\<close>

definition resolve :: "NodeDefaults \<Rightarrow> Config \<Rightarrow> Config" where
  "resolve nd c =
     c\<lparr>OCRBlockchainTimeout := with_override (nd_BlockchainTimeout nd),
       OCRContractConfirmations := with_override (nd_ContractConfirmations nd),
       OCRContractPollInterval := with_override (nd_ContractPollInterval nd),
       OCRContractSubscribeInterval := with_override (nd_ContractSubscribeInterval nd),
       OCRContractTransmitterTransmitTimeout := nd_ContractTransmitterTransmitTimeout nd,
       OCRDatabaseTimeout := nd_DatabaseTimeout nd,
       OCRObservationTimeout := with_override (nd_ObservationTimeout nd)\<rparr>"

section \<open>A node and two job specs to run the model on\<close>

definition test_defaults :: NodeDefaults where
  "test_defaults =
     \<lparr>nd_BlockchainTimeout = 20, nd_ContractConfirmations = 3, nd_ContractPollInterval = 60,
      nd_ContractSubscribeInterval = 120, nd_ContractTransmitterTransmitTimeout = 10,
      nd_DatabaseTimeout = 15, nd_ObservationTimeout = 12\<rparr>"

definition test_config :: Config where
  "test_config = resolve test_defaults
     \<lparr>cfg_P2PPeerID = (\<lambda>override. case override of
                         None \<Rightarrow> Inl ''P2P_PEER_ID env var is not set'' | Some p \<Rightarrow> Inr p),
      cfg_P2PBootstrapPeers = (\<lambda>override. Inr override),
      OCRTraceLogging = False,
      OCRMonitoringEndpoint = (\<lambda>override. override),
      ExplorerURL = None,
      ExplorerAccessKey = ''access'',
      ExplorerSecret = ''secret'',
      OCRBlockchainTimeout = (\<lambda>override. override),
      OCRContractConfirmations = (\<lambda>override. override),
      OCRContractPollInterval = (\<lambda>override. override),
      OCRContractSubscribeInterval = (\<lambda>override. override),
      OCRContractTransmitterTransmitTimeout = 0,
      OCRDatabaseTimeout = 0,
      OCRObservationTimeout = (\<lambda>override. override),
      OCRKeyBundleID = (\<lambda>override. case override of
                          None \<Rightarrow> Inl ''OCR_KEY_BUNDLE_ID env var is not set'' | Some k \<Rightarrow> Inr k),
      OCRTransmitterAddress = (\<lambda>override. case override of
                                 None \<Rightarrow> Inl ''OCR_TRANSMITTER_ADDRESS env var is not set''
                               | Some a \<Rightarrow> Inr a),
      EthGasLimitDefault = 500000\<rparr>"

text \<open>
  A library in which every constructor succeeds, a URL parses unless it starts with a
  colon, and the sanity check rejects a transmit timeout above the blockchain timeout.
\<close>

definition test_lib :: Lib where
  "test_lib =
     \<lparr>NewOffchainAggregatorFilterer = (\<lambda>a c. None),
      NewOffchainAggregatorCaller = (\<lambda>a c. None),
      NewOCRContractConfigTracker = (\<lambda>a f c e l j. None),
      url_Parse = (\<lambda>s. if take 1 s = '':'' then Inl ''missing protocol scheme'' else Inr (URL s)),
      SanityCheckLocalConfig = (\<lambda>l. if lc_BlockchainTimeout l < lc_ContractTransmitterTransmitTimeout l
                                    then Some ''transmit timeout exceeds blockchain timeout''
                                    else None),
      NewBootstrapNode = (\<lambda>a. None),
      abi_JSON = Inr (ContractABI ''OffchainAggregatorABI''),
      NewOracle = (\<lambda>a. None)\<rparr>"

definition test_runner :: "Result list \<Rightarrow> Runner" where
  "test_runner rs =
     \<lparr>CreateRun = (\<lambda>c j m. Inr 7), AwaitRun = (\<lambda>c r. None), ResultsForRun = (\<lambda>c r. Inr rs)\<rparr>"

definition test_dataSource :: "Result list \<Rightarrow> dataSource" where
  "test_dataSource rs = \<lparr>pipelineRunner = test_runner rs, ds_jobID = 1\<rparr>"

definition test_peer :: SingletonPeerWrapper where
  "test_peer = \<lparr>IsStarted = True, PeerID = ''peer1'', pw_Peer = Peer 1\<rparr>"

definition test_delegate :: jobSpawnerDelegate where
  "test_delegate =
     \<lparr>db = GormDB 1,
      jobORM = JobORM 1,
      config = test_config,
      keyStore = \<lparr>DecryptedOCRKey = (\<lambda>kb. if kb = ''kb1'' then Some (OCRKey ''k1'') else None)\<rparr>,
      d_pipelineRunner = test_runner [\<lparr>Value = VString ''3'', Error = None\<rparr>],
      ethClient = EthClient 1,
      logBroadcaster = LogBroadcaster 1,
      peerWrapper = Some test_peer\<rparr>"

text \<open>
  The job of the controller test among the sources: a full participant with one
  bootstrap peer, a key bundle, a transmitter address and no override.
\<close>

definition test_spec :: OracleSpec where
  "test_spec =
     \<lparr>ID = 1, jobID = 1, ContractAddress = ''0xabc'',
      P2PPeerID = Some ''peer1'',
      P2PBootstrapPeers = [''/dns4/chain.link/tcp/1234/p2p/16Uiu2HAm58SP7UL8zsnpeuwHfytLocaqgnyaYKP8wu7qRdrixLju''],
      IsBootstrapPeer = False,
      EncryptedOCRKeyBundleID = Some ''kb1'',
      MonitoringEndpoint = [],
      TransmitterAddress = Some ''0xdef'',
      ObservationTimeout = 0, BlockchainTimeout = 0,
      ContractConfigTrackerSubscribeInterval = 0, ContractConfigTrackerPollInterval = 0,
      ContractConfigConfirmations = 0,
      SchemaVersion = 1, MaxTaskDuration = 0\<rparr>"

text \<open>A bootstrap-only job without a bootstrap peer, a key bundle or a transmitter.\<close>

definition test_bootstrap_spec :: OracleSpec where
  "test_bootstrap_spec =
     test_spec\<lparr>IsBootstrapPeer := True, P2PBootstrapPeers := [],
               EncryptedOCRKeyBundleID := None, TransmitterAddress := None\<rparr>"

text \<open>A job that sets each of the five timing fields a job spec has.\<close>

definition test_override_spec :: OracleSpec where
  "test_override_spec =
     test_spec\<lparr>ObservationTimeout := 5, BlockchainTimeout := 50,
               ContractConfigTrackerSubscribeInterval := 7,
               ContractConfigTrackerPollInterval := 8,
               ContractConfigConfirmations := 9\<rparr>"

section \<open>Lemmas about the model\<close>

subsection \<open>The results of \<open>ServicesForSpec\<close>\<close>

lemma ServicesForSpec_not_ptr:
  "(\<forall>cs. spec \<noteq> PtrOracleSpec cs) \<Longrightarrow>
   ServicesForSpec lib d spec =
     ([], Some (Errorf ''offchainreporting.jobSpawnerDelegate expects an *offchainreporting.OracleSpec, got %T''
                  [AStr (type_name spec)]))"
  by (cases spec) (simp_all add: ServicesForSpec_def)


lemma ServicesForSpec_oracle:
  "oracle_succeeds lib d cs pw bp ep kb ocrkey contractABI ta \<Longrightarrow>
   ServicesForSpec lib d (PtrOracleSpec cs) =
     (services d ep @ [Oracle (oracleArgs d cs pw bp ep ocrkey contractABI ta)], None)"
  by (simp add: oracle_succeeds_def common_steps_succeed_def adapters_succeed_def
      ServicesForSpec_def)

lemma ServicesForSpec_error_nil:
  "ServicesForSpec lib d spec = (svcs, Some e) \<Longrightarrow> svcs = []"
  by (auto simp: ServicesForSpec_def
      split: Spec.splits option.splits sum.splits if_splits)

lemma ServicesForSpec_success:
  assumes "ServicesForSpec lib d spec = (svcs, None)"
  shows "\<exists>cs pw bp ep. spec = PtrOracleSpec cs \<and>
           (bootstrap_succeeds lib d cs pw bp ep
              \<and> svcs = services d ep @ [BootstrapNode (bootstrapNodeArgs d cs pw bp ep)]
            \<or> (\<exists>kb ocrkey contractABI ta.
                  oracle_succeeds lib d cs pw bp ep kb ocrkey contractABI ta
                \<and> svcs = services d ep @ [Oracle (oracleArgs d cs pw bp ep ocrkey contractABI ta)]))"
  using assms
  by (auto simp: ServicesForSpec_def bootstrap_succeeds_def oracle_succeeds_def
        common_steps_succeed_def adapters_succeed_def
      split: Spec.splits option.splits sum.splits if_splits)

lemma ServicesForSpec_common:
  assumes "common_steps_succeed lib d cs pw bp ep"
  shows "ServicesForSpec lib d (PtrOracleSpec cs) =
    (if IsBootstrapPeer cs then
       (case NewBootstrapNode lib (bootstrapNodeArgs d cs pw bp ep) of
          Some err \<Rightarrow> ([], Some (Wrap (Foreign err) ''error calling NewBootstrapNode''))
        | None \<Rightarrow> (services d ep @ [BootstrapNode (bootstrapNodeArgs d cs pw bp ep)], None))
     else if length bp < 1 then ([], Some (New ''need at least one bootstrap peer''))
     else
       (case OCRKeyBundleID (config d) (EncryptedOCRKeyBundleID cs) of
          Inl err \<Rightarrow> ([], Some (Foreign err))
        | Inr kb \<Rightarrow>
       (case DecryptedOCRKey (keyStore d) kb of
          None \<Rightarrow>
            ([], Some (Errorf ''OCR key '%v' does not exist''
                         [case EncryptedOCRKeyBundleID cs of None \<Rightarrow> ANil | Some k \<Rightarrow> AStr k]))
        | Some ocrkey \<Rightarrow>
       (case abi_JSON lib of
          Inl err \<Rightarrow> ([], Some (Wrap (Foreign err) ''could not get contract ABI JSON''))
        | Inr contractABI \<Rightarrow>
       (case OCRTransmitterAddress (config d) (TransmitterAddress cs) of
          Inl err \<Rightarrow> ([], Some (Foreign err))
        | Inr ta \<Rightarrow>
       (case NewOracle lib (oracleArgs d cs pw bp ep ocrkey contractABI ta) of
          Some err \<Rightarrow> ([], Some (Wrap (Foreign err) ''error calling NewOracle''))
        | None \<Rightarrow>
            (services d ep @ [Oracle (oracleArgs d cs pw bp ep ocrkey contractABI ta)],
             None)))))))"
  using assms
  by (simp add: common_steps_succeed_def adapters_succeed_def ServicesForSpec_def)

lemma ServicesForSpec_peer:
  assumes "adapters_succeed lib d cs"
    and "cfg_P2PPeerID (config d) (P2PPeerID cs) = Inr peerID"
  shows "peerWrapper d = None \<Longrightarrow>
           ServicesForSpec lib d (PtrOracleSpec cs) =
             ([], Some (New ''cannot setup OCR job service, libp2p peer was missing''))"
    and "peerWrapper d = Some pw \<Longrightarrow> \<not> IsStarted pw \<Longrightarrow>
           ServicesForSpec lib d (PtrOracleSpec cs) =
             ([], Some (New ''peerWrapper is not started. OCR jobs require a started and running peer. Did you forget to specify P2P_LISTEN_PORT?''))"
    and "peerWrapper d = Some pw \<Longrightarrow> IsStarted pw \<Longrightarrow> PeerID pw \<noteq> peerID \<Longrightarrow>
           ServicesForSpec lib d (PtrOracleSpec cs) =
             ([], Some (Errorf ''given peer with ID '%s' does not match OCR configured peer with ID: %s''
                          [AStr (PeerID pw), AStr peerID]))"
  using assms by (simp_all add: adapters_succeed_def ServicesForSpec_def)

lemma need_bootstrap_only_full:
  "snd (ServicesForSpec lib d (PtrOracleSpec cs)) = Some (New ''need at least one bootstrap peer'')
   \<Longrightarrow> \<not> IsBootstrapPeer cs"
  by (auto simp: ServicesForSpec_def endpointURL_def Let_def
      split: option.splits sum.splits if_splits)

lemmas model_defs =
  contractFilterer_def contractCaller_def ocrContract_def ocrLogger_def endpointURL_def
  client_def monitoringEndpoint_def services_def lc_def bootstrapNodeArgs_def
  contractTransmitter_def oracleArgs_def JobID_def

lemmas step_defs =
  adapters_succeed_def common_steps_succeed_def bootstrap_succeeds_def oracle_succeeds_def

lemmas test_defs =
  test_defaults_def test_config_def test_lib_def test_peer_def test_delegate_def
  test_spec_def test_bootstrap_spec_def test_override_spec_def resolve_def with_override_def





subsection \<open>The test node\<close>

lemma test_spec_succeeds:
  "oracle_succeeds test_lib test_delegate test_spec test_peer
     [''/dns4/chain.link/tcp/1234/p2p/16Uiu2HAm58SP7UL8zsnpeuwHfytLocaqgnyaYKP8wu7qRdrixLju'']
     None ''kb1'' (OCRKey ''k1'') (ContractABI ''OffchainAggregatorABI'') ''0xdef''"
  by (simp add: step_defs model_defs test_defs)

lemma test_bootstrap_spec_succeeds:
  "bootstrap_succeeds test_lib test_delegate test_bootstrap_spec test_peer [] None"
  by (simp add: step_defs model_defs test_defs)








subsection \<open>The conversion\<close>

lemma ToDecimal_3: "ToDecimal (VString ''3'') = Inr (Decimal 3 0)"
  by (simp add: ToDecimal_def decimal_of_string_def unsigned_decimal_def digit_def)

lemma ToDecimal_error: "ToDecimal v = Inl e \<Longrightarrow> e = CoercionError"
  by (auto simp: ToDecimal_def split: pvalue.splits option.splits)

section \<open>Claims\<close>

subsection \<open>C1: job overrides in the local configuration\<close>




subsection \<open>C2: all or nothing\<close>

text \<open>
  C2. Whenever \<open>ServicesForSpec\<close> returns an error, the service list it returns is
  empty; and it returns no error only if every construction step succeeded (the
  adapters, the peer checks, the monitoring URL, the sanity check, and then either the
  bootstrap node or the key, the ABI, the transmitter address and the oracle), in which
  case the list is not empty. So a step that fails yields an error and no service.
\<close>

theorem ServicesForSpec_all_or_nothing:
  "(snd (ServicesForSpec lib d spec) \<noteq> None \<longrightarrow> fst (ServicesForSpec lib d spec) = [])
   \<and> (snd (ServicesForSpec lib d spec) = None \<longrightarrow>
        fst (ServicesForSpec lib d spec) \<noteq> []
      \<and> (\<exists>cs pw bp ep. spec = PtrOracleSpec cs \<and>
            (bootstrap_succeeds lib d cs pw bp ep
             \<or> (\<exists>kb ocrkey contractABI ta.
                   oracle_succeeds lib d cs pw bp ep kb ocrkey contractABI ta))))"
proof (cases "ServicesForSpec lib d spec")
  case (Pair svcs err)
  show ?thesis
  proof (cases err)
    case None
    with Pair have "ServicesForSpec lib d spec = (svcs, None)" by simp
    from ServicesForSpec_success [OF this]
    obtain cs pw bp ep where spec: "spec = PtrOracleSpec cs"
      and branch: "bootstrap_succeeds lib d cs pw bp ep
              \<and> svcs = services d ep @ [BootstrapNode (bootstrapNodeArgs d cs pw bp ep)]
            \<or> (\<exists>kb ocrkey contractABI ta.
                  oracle_succeeds lib d cs pw bp ep kb ocrkey contractABI ta
                \<and> svcs = services d ep @ [Oracle (oracleArgs d cs pw bp ep ocrkey contractABI ta)])"
      by blast
    from branch have ne: "svcs \<noteq> []" by auto
    from spec branch have ex: "\<exists>cs pw bp ep. spec = PtrOracleSpec cs \<and>
            (bootstrap_succeeds lib d cs pw bp ep
             \<or> (\<exists>kb ocrkey contractABI ta.
                   oracle_succeeds lib d cs pw bp ep kb ocrkey contractABI ta))"
      by blast
    from Pair None ne ex show ?thesis by simp
  next
    case (Some e)
    with Pair have "ServicesForSpec lib d spec = (svcs, Some e)" by simp
    from ServicesForSpec_error_nil [OF this] Pair Some show ?thesis by simp
  qed
qed

text \<open>
  A node without a peer wrapper fails with no service; the test node succeeds.
\<close>

theorem ServicesForSpec_all_or_nothing_witness:
  "ServicesForSpec test_lib (test_delegate\<lparr>peerWrapper := None\<rparr>) (PtrOracleSpec test_spec)
     = ([], Some (New ''cannot setup OCR job service, libp2p peer was missing''))
   \<and> snd (ServicesForSpec test_lib test_delegate (PtrOracleSpec test_spec)) = None
   \<and> fst (ServicesForSpec test_lib test_delegate (PtrOracleSpec test_spec)) \<noteq> []"
proof -
  have a: "ServicesForSpec test_lib (test_delegate\<lparr>peerWrapper := None\<rparr>) (PtrOracleSpec test_spec)
     = ([], Some (New ''cannot setup OCR job service, libp2p peer was missing''))"
    by (rule ServicesForSpec_peer(1) [where peerID = "''peer1''"])
       (simp_all add: step_defs model_defs test_defs)
  have b: "snd (ServicesForSpec test_lib test_delegate (PtrOracleSpec test_spec)) = None"
    by (simp add: ServicesForSpec_oracle [OF test_spec_succeeds])
  from a b
    ServicesForSpec_all_or_nothing [of test_lib "test_delegate\<lparr>peerWrapper := None\<rparr>"
      "PtrOracleSpec test_spec"]
    ServicesForSpec_all_or_nothing [of test_lib test_delegate "PtrOracleSpec test_spec"]
  show ?thesis by simp
qed

subsection \<open>C3: a full participant without bootstrap peers\<close>




subsection \<open>C4: the two branches\<close>



subsection \<open>C5: a result set that is not a single result\<close>

text \<open>
  C5. When the run is created, awaited and its results fetched, and the result set does
  not have exactly one element, \<open>Observe\<close> returns no observation and the error
  \<open>offchain reporting pipeline should have a single output\<close>, which is neither the
  conversion's error, nor an error of the pipeline handed back, nor the wrapped error of
  fetching the results.
\<close>

theorem Observe_topology_error:
  assumes "CreateRun (pipelineRunner ds) c (ds_jobID ds) None = Inr runID"
    and "AwaitRun (pipelineRunner ds) c runID = None"
    and "ResultsForRun (pipelineRunner ds) c runID = Inr results"
    and "length results \<noteq> 1"
  shows "Observe ds c =
           (None, Some (Errorf ''offchain reporting pipeline should have a single output (job spec ID: %v, pipeline run ID: %v)''
                          [AInt (ds_jobID ds), AInt runID]))
         \<and> snd (Observe ds c) \<noteq> Some CoercionError
         \<and> (\<forall>e. snd (Observe ds c) \<noteq> Some (Foreign e))
         \<and> (\<forall>e. snd (Observe ds c) \<noteq> Some (Wrapf e ''pipeline error'' []))"
  using assms by (simp add: Observe_def)

text \<open>
  No result and two results, on a runner that returns run 7.
\<close>

theorem Observe_topology_error_witness:
  "Observe (test_dataSource []) (Ctx 0) =
     (None, Some (Errorf ''offchain reporting pipeline should have a single output (job spec ID: %v, pipeline run ID: %v)''
                    [AInt 1, AInt 7]))
   \<and> Observe (test_dataSource [\<lparr>Value = VString ''3'', Error = None\<rparr>,
                                 \<lparr>Value = VString ''x'', Error = Some ''task failed''\<rparr>]) (Ctx 0) =
     (None, Some (Errorf ''offchain reporting pipeline should have a single output (job spec ID: %v, pipeline run ID: %v)''
                    [AInt 1, AInt 7]))"
  using Observe_topology_error [of "test_dataSource []" "Ctx 0" 7 "[]"]
    Observe_topology_error [of "test_dataSource [\<lparr>Value = VString ''3'', Error = None\<rparr>,
                                 \<lparr>Value = VString ''x'', Error = Some ''task failed''\<rparr>]" "Ctx 0" 7
       "[\<lparr>Value = VString ''3'', Error = None\<rparr>,
                                 \<lparr>Value = VString ''x'', Error = Some ''task failed''\<rparr>]"]
  by (simp add: test_dataSource_def test_runner_def)

subsection \<open>C6: a single result\<close>

text \<open>
  C6. When the run is created, awaited and its results fetched, and the result set is a
  single result without error, \<open>Observe\<close> returns the integer part of the decimal the
  value converts to, so the observation 3 for the string \<open>3\<close>; a value that does not
  convert gives no observation and the conversion's error.
\<close>

theorem Observe_single_result:
  assumes "CreateRun (pipelineRunner ds) c (ds_jobID ds) None = Inr runID"
    and "AwaitRun (pipelineRunner ds) c runID = None"
    and "ResultsForRun (pipelineRunner ds) c runID = Inr [r]"
    and "Error r = None"
  shows "(Value r = VString ''3'' \<longrightarrow> Observe ds c = (Some 3, None))
       \<and> (\<forall>x. ToDecimal (Value r) = Inr x \<longrightarrow> Observe ds c = (Some (BigInt x), None))
       \<and> ((\<forall>x. ToDecimal (Value r) \<noteq> Inr x) \<longrightarrow> Observe ds c = (None, Some CoercionError))"
proof -
  have obs: "Observe ds c =
      (case ToDecimal (Value r) of Inl err \<Rightarrow> (None, Some err) | Inr x \<Rightarrow> (Some (BigInt x), None))"
    using assms by (simp add: Observe_def)
  have three: "Value r = VString ''3'' \<longrightarrow> Observe ds c = (Some 3, None)"
    by (simp add: obs ToDecimal_3 BigInt_def)
  have ok: "\<forall>x. ToDecimal (Value r) = Inr x \<longrightarrow> Observe ds c = (Some (BigInt x), None)"
    by (simp add: obs)
  have bad: "(\<forall>x. ToDecimal (Value r) \<noteq> Inr x) \<longrightarrow> Observe ds c = (None, Some CoercionError)"
  proof
    assume no: "\<forall>x. ToDecimal (Value r) \<noteq> Inr x"
    then obtain e where e: "ToDecimal (Value r) = Inl e"
      by (cases "ToDecimal (Value r)") auto
    with ToDecimal_error [OF e] show "Observe ds c = (None, Some CoercionError)"
      by (simp add: obs)
  qed
  from three ok bad show ?thesis by blast
qed

text \<open>
  The strings \<open>3\<close>, \<open>1.5\<close> and \<open>abc\<close> as the single result.
\<close>

theorem Observe_single_result_witness:
  "Observe (test_dataSource [\<lparr>Value = VString ''3'', Error = None\<rparr>]) (Ctx 0) = (Some 3, None)
   \<and> Observe (test_dataSource [\<lparr>Value = VString ''1.5'', Error = None\<rparr>]) (Ctx 0) = (Some 1, None)
   \<and> Observe (test_dataSource [\<lparr>Value = VString ''abc'', Error = None\<rparr>]) (Ctx 0)
       = (None, Some CoercionError)"
proof -
  have a: "ToDecimal (VString ''1.5'') = Inr (Decimal 15 1)"
    by (simp add: ToDecimal_def decimal_of_string_def unsigned_decimal_def digit_def)
  have b: "\<forall>x. ToDecimal (VString ''abc'') \<noteq> Inr x"
    by (simp add: ToDecimal_def decimal_of_string_def unsigned_decimal_def digit_def)
  show ?thesis
    using Observe_single_result [of "test_dataSource [\<lparr>Value = VString ''3'', Error = None\<rparr>]"
            "Ctx 0" 7 "\<lparr>Value = VString ''3'', Error = None\<rparr>"]
      Observe_single_result [of "test_dataSource [\<lparr>Value = VString ''1.5'', Error = None\<rparr>]"
            "Ctx 0" 7 "\<lparr>Value = VString ''1.5'', Error = None\<rparr>"]
      Observe_single_result [of "test_dataSource [\<lparr>Value = VString ''abc'', Error = None\<rparr>]"
            "Ctx 0" 7 "\<lparr>Value = VString ''abc'', Error = None\<rparr>"]
      a b
    by (simp add: test_dataSource_def test_runner_def BigInt_def)
qed

subsection \<open>C7: the order of the precondition checks\<close>



subsection \<open>C8: the monitoring endpoint\<close>



subsection \<open>C9: no bootstrap-peer check for a bootstrap-only spec\<close>

text \<open>
  C9. For a bootstrap-only spec \<open>ServicesForSpec\<close> never returns
  \<open>need at least one bootstrap peer\<close>; when the steps both branches share succeed,
  the resolved bootstrap peer list, empty or not, is the \<open>Bootstrappers\<close> argument of
  \<open>NewBootstrapNode\<close>, whose outcome alone decides the result.
\<close>

theorem bootstrap_only_no_peer_check:
  assumes "IsBootstrapPeer cs"
  shows "snd (ServicesForSpec lib d (PtrOracleSpec cs))
           \<noteq> Some (New ''need at least one bootstrap peer'')
    \<and> (\<forall>pw bp ep. common_steps_succeed lib d cs pw bp ep \<longrightarrow>
          bn_Bootstrappers (bootstrapNodeArgs d cs pw bp ep) = bp
        \<and> ServicesForSpec lib d (PtrOracleSpec cs) =
            (case NewBootstrapNode lib (bootstrapNodeArgs d cs pw bp ep) of
               Some err \<Rightarrow> ([], Some (Wrap (Foreign err) ''error calling NewBootstrapNode''))
             | None \<Rightarrow>
                 (services d ep @ [BootstrapNode (bootstrapNodeArgs d cs pw bp ep)], None)))"
proof -
  have a: "snd (ServicesForSpec lib d (PtrOracleSpec cs))
           \<noteq> Some (New ''need at least one bootstrap peer'')"
    using need_bootstrap_only_full [of lib d cs] assms by blast
  have b: "\<forall>pw bp ep. common_steps_succeed lib d cs pw bp ep \<longrightarrow>
          bn_Bootstrappers (bootstrapNodeArgs d cs pw bp ep) = bp
        \<and> ServicesForSpec lib d (PtrOracleSpec cs) =
            (case NewBootstrapNode lib (bootstrapNodeArgs d cs pw bp ep) of
               Some err \<Rightarrow> ([], Some (Wrap (Foreign err) ''error calling NewBootstrapNode''))
             | None \<Rightarrow>
                 (services d ep @ [BootstrapNode (bootstrapNodeArgs d cs pw bp ep)], None))"
    using assms by (simp add: ServicesForSpec_common) (simp add: bootstrapNodeArgs_def)
  from a b show ?thesis by (rule conjI)
qed

text \<open>
  The bootstrap-only job without a bootstrap peer, on the test node.
\<close>

theorem bootstrap_only_no_peer_check_witness:
  "IsBootstrapPeer test_bootstrap_spec
   \<and> cfg_P2PBootstrapPeers (config test_delegate) (P2PBootstrapPeers test_bootstrap_spec) = Inr []
   \<and> bn_Bootstrappers (bootstrapNodeArgs test_delegate test_bootstrap_spec test_peer [] None) = []
   \<and> ServicesForSpec test_lib test_delegate (PtrOracleSpec test_bootstrap_spec)
     = ([BootstrapNode (bootstrapNodeArgs test_delegate test_bootstrap_spec test_peer [] None)],
        None)"
proof -
  have boot: "IsBootstrapPeer test_bootstrap_spec" by (simp add: test_defs)
  have bp: "cfg_P2PBootstrapPeers (config test_delegate) (P2PBootstrapPeers test_bootstrap_spec)
      = Inr []"
    by (simp add: test_defs)
  have common: "common_steps_succeed test_lib test_delegate test_bootstrap_spec test_peer [] None"
    using test_bootstrap_spec_succeeds by (simp add: bootstrap_succeeds_def)
  have node: "NewBootstrapNode test_lib
      (bootstrapNodeArgs test_delegate test_bootstrap_spec test_peer [] None) = None"
    by (simp add: test_defs)
  from bootstrap_only_no_peer_check [OF boot, of test_lib test_delegate, THEN conjunct2,
      rule_format, OF common]
  have "bn_Bootstrappers (bootstrapNodeArgs test_delegate test_bootstrap_spec test_peer [] None) = []
    \<and> ServicesForSpec test_lib test_delegate (PtrOracleSpec test_bootstrap_spec)
     = (services test_delegate None
          @ [BootstrapNode (bootstrapNodeArgs test_delegate test_bootstrap_spec test_peer [] None)],
        None)"
    by (simp add: node)
  with boot bp show ?thesis by (simp add: services_def)
qed

subsection \<open>C10: a spec of the wrong type\<close>

text \<open>
  C10. \<open>ToDBRow\<close> panics on every spec that is not an \<open>OracleSpec\<close> value and
  returns a row exactly on those; \<open>ServicesForSpec\<close> on every spec that is not a
  pointer to an \<open>OracleSpec\<close> returns an error and no service.
\<close>

theorem type_mismatch_handling:
  "((\<forall>s. spec \<noteq> ValOracleSpec s) \<longrightarrow>
      ToDBRow d spec = Panic (''expected an offchainreporting.OracleSpec, got '' @ type_name spec))
   \<and> ((\<exists>row. ToDBRow d spec = Returns row) \<longleftrightarrow> (\<exists>s. spec = ValOracleSpec s))
   \<and> ((\<forall>s. spec \<noteq> PtrOracleSpec s) \<longrightarrow>
        ServicesForSpec lib d spec =
          ([], Some (Errorf ''offchainreporting.jobSpawnerDelegate expects an *offchainreporting.OracleSpec, got %T''
                       [AStr (type_name spec)])))"
proof -
  have a: "(\<forall>s. spec \<noteq> ValOracleSpec s) \<longrightarrow>
      ToDBRow d spec = Panic (''expected an offchainreporting.OracleSpec, got '' @ type_name spec)"
    by (cases spec) (simp_all add: ToDBRow_def)
  have b: "(\<exists>row. ToDBRow d spec = Returns row) \<longleftrightarrow> (\<exists>s. spec = ValOracleSpec s)"
    by (cases spec) (simp_all add: ToDBRow_def)
  have c: "(\<forall>s. spec \<noteq> PtrOracleSpec s) \<longrightarrow>
        ServicesForSpec lib d spec =
          ([], Some (Errorf ''offchainreporting.jobSpawnerDelegate expects an *offchainreporting.OracleSpec, got %T''
                       [AStr (type_name spec)]))"
    using ServicesForSpec_not_ptr [of spec lib d] by blast
  from a b c show ?thesis by (intro conjI)
qed

text \<open>
  A pointer and the nil interface given to \<open>ToDBRow\<close>; a value and the nil interface
  given to \<open>ServicesForSpec\<close>.
\<close>

theorem type_mismatch_handling_witness:
  "ToDBRow test_delegate (PtrOracleSpec test_spec)
     = Panic ''expected an offchainreporting.OracleSpec, got *offchainreporting.OracleSpec''
   \<and> ToDBRow test_delegate NilSpec
     = Panic ''expected an offchainreporting.OracleSpec, got <nil>''
   \<and> (\<exists>row. ToDBRow test_delegate (ValOracleSpec test_spec) = Returns row)
   \<and> ServicesForSpec test_lib test_delegate (ValOracleSpec test_spec)
     = ([], Some (Errorf ''offchainreporting.jobSpawnerDelegate expects an *offchainreporting.OracleSpec, got %T''
                    [AStr ''offchainreporting.OracleSpec'']))
   \<and> ServicesForSpec test_lib test_delegate NilSpec
     = ([], Some (Errorf ''offchainreporting.jobSpawnerDelegate expects an *offchainreporting.OracleSpec, got %T''
                    [AStr ''<nil>'']))"
  using type_mismatch_handling [of "PtrOracleSpec test_spec" test_delegate test_lib]
    type_mismatch_handling [of NilSpec test_delegate test_lib]
    type_mismatch_handling [of "ValOracleSpec test_spec" test_delegate test_lib]
  by simp

end
